theory Spec2Isabelle
  imports Main "HOL-Library.Word"
begin

section \<open>Go values shared by the package\<close>

text \<open>
  \<^verbatim>\<open>errors.New(msg)\<close> is an error value carrying its message. A panic is either
  raised by the package itself (\<^verbatim>\<open>panic(err)\<close>) or by the Go runtime: an assignment to
  an entry of a nil map, or a field access or method call through a nil pointer or a nil
  interface.
\<close>

datatype error = Error string

datatype panic = PanicError error | NilMapAssign | NilDereference

text \<open>
  Go's \<^verbatim>\<open>int\<close> is a 64-bit two's complement integer on the 64-bit targets the
  package is built for; \<open>+\<close> wraps around and \<open>sint\<close> reads the signed value.
\<close>

type_synonym go_int = "64 word"

section \<open>The fragment of \<^verbatim>\<open>fmt.Sprintf\<close> the package uses\<close>

text \<open>
  The package formats with the verbs \<^verbatim>\<open>%s\<close> (a string operand, copied as it is) and
  \<^verbatim>\<open>%d\<close> (an integer operand, in decimal with a leading minus sign when negative).
  Decimal digits are taken from the table \<^verbatim>\<open>"0123456789"\<close>, most significant first.
  Every other character of the format is copied to the output. Go's diagnostics for a
  verb without a matching operand are outside this fragment: such a directive is copied
  like any other text.
\<close>

datatype fmt_arg = StrArg string | IntArg int

definition digit_char :: "nat \<Rightarrow> char" where
  "digit_char d = ''0123456789'' ! d"

fun digits :: "nat \<Rightarrow> string" where
  "digits n = (if n < 10 then [digit_char n] else digits (n div 10) @ [digit_char (n mod 10)])"

declare digits.simps [simp del]

definition itoa :: "int \<Rightarrow> string" where
  "itoa k = (if k < 0 then CHR ''-'' # digits (nat (- k)) else digits (nat k))"

fun Sprintf :: "string \<Rightarrow> fmt_arg list \<Rightarrow> string" where
  "Sprintf [] args = []"
| "Sprintf (c # d # fs) (StrArg x # args) =
     (if c = CHR ''%'' \<and> d = CHR ''s'' then x @ Sprintf fs args
      else c # Sprintf (d # fs) (StrArg x # args))"
| "Sprintf (c # d # fs) (IntArg k # args) =
     (if c = CHR ''%'' \<and> d = CHR ''d'' then itoa k @ Sprintf fs args
      else c # Sprintf (d # fs) (IntArg k # args))"
| "Sprintf (c # fs) args = c # Sprintf fs args"

text \<open>
  Reading a decimal numeral back: the value of a digit character is its position in the
  digit table, and the value of a digit string is read most significant digit first.
\<close>

definition is_digit :: "char \<Rightarrow> bool" where
  "is_digit c = (c \<in> set ''0123456789'')"

definition digit_value :: "char \<Rightarrow> nat" where
  "digit_value c = length (takeWhile (\<lambda>x. x \<noteq> c) ''0123456789'')"

definition decimal_value :: "string \<Rightarrow> nat" where
  "decimal_value xs = foldl (\<lambda>acc c. 10 * acc + digit_value c) 0 xs"

section \<open>dialect\_duckdb.go\<close>

text \<open>
  \<^verbatim>\<open>DbDialect\<close> is declared elsewhere in the package; the DuckDB dialect sets its two
  fields \<^verbatim>\<open>TableExistsStmt\<close> and \<^verbatim>\<open>Bind\<close>.
\<close>

record DbDialect =
  TableExistsStmt :: string
  Bind :: "string \<Rightarrow> go_int \<Rightarrow> string"

definition duckdbDialect :: DbDialect where
  "duckdbDialect = \<lparr>
     TableExistsStmt =
       ''SELECT EXISTS (SELECT 1 FROM information_schema.tables WHERE table_name = $1)'',
     Bind = (\<lambda>field i. Sprintf ''$%d'' [IntArg (sint (i + 1))]) \<rparr>"

section \<open>fluent\_insert.go: the statement cache\<close>

definition selectkey :: string where
  "selectkey = ''select''"

text \<open>
  \<^verbatim>\<open>type Statements map[string]string\<close>. A Go map value is either nil or a table;
  \<open>None\<close> is the nil map. Reading a nil map finds no key, assigning to an entry of a
  nil map panics.
\<close>

type_synonym Statements = "(string \<rightharpoonup> string) option"

text \<open>The index expression \<^verbatim>\<open>val, ok := s[key]\<close>.\<close>

definition map_index :: "Statements \<Rightarrow> string \<Rightarrow> string option" where
  "map_index s key = (case s of None \<Rightarrow> None | Some m \<Rightarrow> m key)"

text \<open>The assignment \<^verbatim>\<open>s[key] = stmt\<close>.\<close>

definition map_assign :: "Statements \<Rightarrow> string \<Rightarrow> string \<Rightarrow> panic + Statements" where
  "map_assign s key stmt =
     (case s of None \<Rightarrow> Inl NilMapAssign | Some m \<Rightarrow> Inr (Some (m(key \<mapsto> stmt))))"

text \<open>The keys present in a cache.\<close>

definition statement_keys :: "Statements \<Rightarrow> string set" where
  "statement_keys s = (case s of None \<Rightarrow> {} | Some m \<Rightarrow> dom m)"

text \<open>
  The two lookups take the cache as their receiver. Each returns its Go result together
  with the cache as the call leaves it.
\<close>

definition Statements_Get ::
  "Statements \<Rightarrow> string \<Rightarrow> (string \<times> error option) \<times> Statements" where
  "Statements_Get s key =
     (case map_index s key of
        Some val \<Rightarrow> ((val, None), s)
      | None \<Rightarrow> (('''', Some (Error ''Invalid statement'')), s))"

definition Statements_GetOrPanic ::
  "Statements \<Rightarrow> string \<Rightarrow> (panic + string) \<times> Statements" where
  "Statements_GetOrPanic s key =
     (case map_index s key of
        Some val \<Rightarrow> (Inr val, s)
      | None \<Rightarrow> (Inl (PanicError (Error ''Invalid statement'')), s))"

section \<open>fluent\_insert.go: the table data set\<close>

text \<open>\<^verbatim>\<open>TableFields\<close> has Go type \<^verbatim>\<open>any\<close>: the type parameter \<open>'f\<close>.\<close>

record 'f TableDataSet =
  Name :: string
  Schema :: string
  Statements :: Statements
  TableFields :: 'f

definition TableDataSet_Fields :: "'f TableDataSet \<Rightarrow> 'f" where
  "TableDataSet_Fields t = TableFields t"

definition TableDataSet_Entity :: "'f TableDataSet \<Rightarrow> string" where
  "TableDataSet_Entity t =
     (if Schema t \<noteq> '''' then Sprintf ''%s.%s'' [StrArg (Schema t), StrArg (Name t)]
      else Name t)"

definition TableDataSet_Commands :: "'f TableDataSet \<Rightarrow> Statements" where
  "TableDataSet_Commands t = Statements t"

text \<open>
  \<^verbatim>\<open>PutCommand\<close> mutates the data set behind its pointer receiver; the model returns
  the data set as the call leaves it, or the panic that ends the call.
\<close>

definition TableDataSet_PutCommand ::
  "'f TableDataSet \<Rightarrow> string \<Rightarrow> string \<Rightarrow> panic + 'f TableDataSet" where
  "TableDataSet_PutCommand t key stmt =
     (let t1 = (if Statements t = None then t\<lparr>Statements := Some Map.empty\<rparr> else t)
      in case map_assign (Statements t1) selectkey stmt of
           Inl p \<Rightarrow> Inl p
         | Inr s \<Rightarrow> Inr (t1\<lparr>Statements := s\<rparr>))"

section \<open>fluent\_insert.go: the insert builder\<close>

text \<open>
  \<^verbatim>\<open>InsertInput\<close>, \<^verbatim>\<open>DataStore\<close>, \<^verbatim>\<open>DataSet\<close> and \<^verbatim>\<open>Tx\<close> are declared in
  other files of the package. The builder uses them as follows: it fills the five
  fields of an \<^verbatim>\<open>InsertInput\<close>, calls the method \<^verbatim>\<open>InsertRecs\<close> of its store,
  and passes a data set (type \<open>'d\<close>) and a possibly nil pointer to a transaction
  (\<open>'t option\<close>) through. Records have Go type \<^verbatim>\<open>interface{}\<close>: the type
  \<open>'r\<close>. What \<^verbatim>\<open>InsertRecs\<close> gives back (its error result, and whatever else it
  does) is the type \<open>'res\<close>.
\<close>

record ('d, 'r) InsertInput =
  Dataset :: 'd
  Records :: 'r
  Batch :: bool
  BatchSize :: go_int
  PanicOnErr :: bool

record ('t, 'd, 'r, 'res) DataStore =
  InsertRecs :: "'t option \<Rightarrow> ('d, 'r) InsertInput \<Rightarrow> 'res"

text \<open>The \<^verbatim>\<open>store\<close> field is an interface value: \<open>None\<close> is the nil interface.\<close>

record ('t, 'd, 'r, 'res) FluentInsert =
  store :: "('t, 'd, 'r, 'res) DataStore option"
  ds :: 'd
  batch :: bool
  batchSize :: go_int
  tx :: "'t option"
  records :: 'r
  panicOnErr :: bool

definition defaultBatchSize :: go_int where
  "defaultBatchSize = 100"

text \<open>
  Every method has the pointer receiver \<^verbatim>\<open>i *FluentInsert\<close>, writes one field of
  the builder it points to and returns the pointer. Builders live in a store of objects,
  addressed by natural numbers; an address with no object stands for the nil pointer.
  A method returns the pointer it hands back together with the store as it leaves it.
\<close>

type_synonym ('t, 'd, 'r, 'res) builders = "nat \<rightharpoonup> ('t, 'd, 'r, 'res) FluentInsert"

definition FluentInsert_Tx ::
  "nat \<Rightarrow> 't option \<Rightarrow> ('t, 'd, 'r, 'res) builders
     \<Rightarrow> panic + (nat \<times> ('t, 'd, 'r, 'res) builders)" where
  "FluentInsert_Tx i t h =
     (case h i of None \<Rightarrow> Inl NilDereference | Some b \<Rightarrow> Inr (i, h(i \<mapsto> b\<lparr>tx := t\<rparr>)))"

definition FluentInsert_Batch ::
  "nat \<Rightarrow> bool \<Rightarrow> ('t, 'd, 'r, 'res) builders
     \<Rightarrow> panic + (nat \<times> ('t, 'd, 'r, 'res) builders)" where
  "FluentInsert_Batch i bt h =
     (case h i of None \<Rightarrow> Inl NilDereference | Some b \<Rightarrow> Inr (i, h(i \<mapsto> b\<lparr>batch := bt\<rparr>)))"

definition FluentInsert_BatchSize ::
  "nat \<Rightarrow> go_int \<Rightarrow> ('t, 'd, 'r, 'res) builders
     \<Rightarrow> panic + (nat \<times> ('t, 'd, 'r, 'res) builders)" where
  "FluentInsert_BatchSize i bs h =
     (case h i of None \<Rightarrow> Inl NilDereference
      | Some b \<Rightarrow> Inr (i, h(i \<mapsto> b\<lparr>batchSize := bs\<rparr>)))"

definition FluentInsert_Records ::
  "nat \<Rightarrow> 'r \<Rightarrow> ('t, 'd, 'r, 'res) builders
     \<Rightarrow> panic + (nat \<times> ('t, 'd, 'r, 'res) builders)" where
  "FluentInsert_Records i recs h =
     (case h i of None \<Rightarrow> Inl NilDereference
      | Some b \<Rightarrow> Inr (i, h(i \<mapsto> b\<lparr>records := recs\<rparr>)))"

definition FluentInsert_PanicOnErr ::
  "nat \<Rightarrow> bool \<Rightarrow> ('t, 'd, 'r, 'res) builders
     \<Rightarrow> panic + (nat \<times> ('t, 'd, 'r, 'res) builders)" where
  "FluentInsert_PanicOnErr i pe h =
     (case h i of None \<Rightarrow> Inl NilDereference
      | Some b \<Rightarrow> Inr (i, h(i \<mapsto> b\<lparr>panicOnErr := pe\<rparr>)))"

text \<open>
  \<^verbatim>\<open>Execute\<close> reads the builder, fills the \<^verbatim>\<open>InsertInput\<close> and returns what the
  store's \<^verbatim>\<open>InsertRecs\<close> returns.
\<close>

definition FluentInsert_Execute ::
  "nat \<Rightarrow> ('t, 'd, 'r, 'res) builders \<Rightarrow> panic + ('res \<times> ('t, 'd, 'r, 'res) builders)" where
  "FluentInsert_Execute i h =
     (case h i of
        None \<Rightarrow> Inl NilDereference
      | Some b \<Rightarrow>
          (let ii = \<lparr>Dataset = ds b, Records = records b, Batch = batch b,
                     BatchSize = batchSize b, PanicOnErr = panicOnErr b\<rparr>
           in case store b of
                None \<Rightarrow> Inl NilDereference
              | Some st \<Rightarrow> Inr (InsertRecs st (tx b) ii, h)))"

text \<open>
  A configuration call, named by the method and its argument, and a chain of calls
  \<^verbatim>\<open>i.M1(a1).M2(a2)\<close>: each method is invoked on the pointer the previous one returned,
  and a panic ends the chain.
\<close>

datatype ('t, 'r) config_call =
  CallTx "'t option"
| CallBatch bool
| CallBatchSize go_int
| CallRecords 'r
| CallPanicOnErr bool

fun invoke ::
  "('t, 'r) config_call \<Rightarrow> nat \<Rightarrow> ('t, 'd, 'r, 'res) builders
     \<Rightarrow> panic + (nat \<times> ('t, 'd, 'r, 'res) builders)" where
  "invoke (CallTx t) i h = FluentInsert_Tx i t h"
| "invoke (CallBatch bt) i h = FluentInsert_Batch i bt h"
| "invoke (CallBatchSize bs) i h = FluentInsert_BatchSize i bs h"
| "invoke (CallRecords recs) i h = FluentInsert_Records i recs h"
| "invoke (CallPanicOnErr pe) i h = FluentInsert_PanicOnErr i pe h"

fun field_written :: "('t, 'r) config_call \<Rightarrow> string" where
  "field_written (CallTx t) = ''tx''"
| "field_written (CallBatch bt) = ''batch''"
| "field_written (CallBatchSize bs) = ''batchSize''"
| "field_written (CallRecords recs) = ''records''"
| "field_written (CallPanicOnErr pe) = ''panicOnErr''"

definition and_then ::
  "panic + (nat \<times> ('t, 'd, 'r, 'res) builders) \<Rightarrow> ('t, 'r) config_call
     \<Rightarrow> panic + (nat \<times> ('t, 'd, 'r, 'res) builders)" where
  "and_then r c = (case r of Inl p \<Rightarrow> Inl p | Inr (j, h) \<Rightarrow> invoke c j h)"

section \<open>The store's batch grouping\<close>

text \<open>
  Modelled from the spec: the grouping of a record list into chunks of at most a given
  size, which the store's \<^verbatim>\<open>InsertRecs\<close> performs in batch mode. \<^verbatim>\<open>InsertRecs\<close>
  belongs to the \<^verbatim>\<open>DataStore\<close> implementations, which are not among the source
  files. The spec: ``records are grouped into chunks of at most \<^verbatim>\<open>BatchSize\<close>''.
\<close>

function chunks :: "nat \<Rightarrow> 'a list \<Rightarrow> 'a list list" where
  "chunks n xs = (if n = 0 \<or> xs = [] then [] else take n xs # chunks n (drop n xs))"
  by pat_completeness auto
termination
  by (relation "measure (\<lambda>(n, xs). length xs)") auto

declare chunks.simps [simp del]

text \<open>
  Modelled from the spec: the chunk size \<^verbatim>\<open>InsertRecs\<close> works with, ``\<^verbatim>\<open>BatchSize\<close>
  (default 100)''. The builder has no flag that says whether \<^verbatim>\<open>BatchSize\<close> was
  called: a size that was never set is the zero value of the field, and the default
  stands in for it. The spec does not say what a negative size means: \<open>None\<close>.
\<close>

definition batch_size :: "go_int \<Rightarrow> nat option" where
  "batch_size bs =
     (if bs = 0 then Some (nat (sint defaultBatchSize))
      else if 0 < sint bs then Some (nat (sint bs)) else None)"

text \<open>
  Modelled from the spec: the batches \<^verbatim>\<open>InsertRecs\<close> submits for an input whose
  records are a list: the chunks in batch mode, ``one statement per record'' otherwise.
\<close>

definition InsertRecs_batches :: "('d, 'a list) InsertInput \<Rightarrow> 'a list list option" where
  "InsertRecs_batches ii =
     (if Batch ii then map_option (\<lambda>n. chunks n (Records ii)) (batch_size (BatchSize ii))
      else Some (map (\<lambda>r. [r]) (Records ii)))"

text \<open>
  Modelled from the spec: a store whose \<^verbatim>\<open>InsertRecs\<close> gives back the batches it
  submits.
\<close>

definition batching_store :: "('t, 'd, 'a list, 'a list list option) DataStore" where
  "batching_store = \<lparr>InsertRecs = (\<lambda>t ii. InsertRecs_batches ii)\<rparr>"

section \<open>Decimal numerals\<close>

lemma digit_value_digit_char:
  fixes d :: nat
  assumes "d < 10"
  shows "digit_value (digit_char d) = d"
proof -
  from assms have "d = 0 \<or> d = 1 \<or> d = 2 \<or> d = 3 \<or> d = 4 \<or> d = 5 \<or> d = 6 \<or> d = 7
      \<or> d = 8 \<or> d = 9"
    by arith
  then show ?thesis
    by (auto simp: digit_value_def digit_char_def)
qed

lemma is_digit_digit_char: "d < 10 \<Longrightarrow> is_digit (digit_char d)"
  unfolding is_digit_def digit_char_def
  by (rule nth_mem) simp

lemma digit_char_nonzero:
  fixes d :: nat
  assumes "0 < d" "d < 10"
  shows "digit_char d \<noteq> CHR ''0''"
proof
  assume "digit_char d = CHR ''0''"
  then have "digit_value (digit_char d) = 0" by (simp add: digit_value_def)
  with assms show False by (simp add: digit_value_digit_char)
qed

lemma decimal_value_snoc: "decimal_value (xs @ [c]) = 10 * decimal_value xs + digit_value c"
  by (simp add: decimal_value_def)

lemma digits_not_Nil: "digits n \<noteq> []"
  by (subst digits.simps) simp

lemma decimal_value_digits: "decimal_value (digits n) = n"
proof (induction n rule: digits.induct)
  case (1 n)
  show ?case
  proof (cases "n < 10")
    case True
    then show ?thesis
      by (subst digits.simps) (simp add: decimal_value_def digit_value_digit_char)
  next
    case False
    with 1 have "decimal_value (digits (n div 10)) = n div 10" by simp
    with False show ?thesis
      by (subst digits.simps) (simp add: decimal_value_snoc digit_value_digit_char)
  qed
qed

lemma digits_all_digit: "c \<in> set (digits n) \<Longrightarrow> is_digit c"
proof (induction n rule: digits.induct)
  case (1 n)
  from "1.prems" show ?case
    by (subst (asm) digits.simps) (auto simp: is_digit_digit_char "1.IH" split: if_splits)
qed

lemma digits_no_leading_zero: "0 < n \<Longrightarrow> hd (digits n) \<noteq> CHR ''0''"
proof (induction n rule: digits.induct)
  case (1 n)
  show ?case
  proof (cases "n < 10")
    case True
    with "1.prems" show ?thesis
      by (subst digits.simps) (simp add: digit_char_nonzero)
  next
    case False
    then have "0 < n div 10" by simp
    with False "1.IH" have "hd (digits (n div 10)) \<noteq> CHR ''0''" by simp
    with False show ?thesis
      by (subst digits.simps) (simp add: digits_not_Nil)
  qed
qed

lemma digits_inj: "digits a = digits b \<Longrightarrow> a = b"
  by (metis decimal_value_digits)

lemma hd_digits_digit: "is_digit (hd (digits n))"
  using digits_all_digit [of "hd (digits n)" n] digits_not_Nil [of n] by simp

lemma itoa_inj:
  assumes eq: "itoa a = itoa b"
  shows "a = b"
proof -
  have sign: False if "x < 0" "\<not> y < 0" "itoa x = itoa y" for x y
  proof -
    from that have "CHR ''-'' # digits (nat (- x)) = digits (nat y)"
      by (simp add: itoa_def)
    then have "hd (digits (nat y)) = CHR ''-''" by (metis list.sel(1))
    with hd_digits_digit [of "nat y"] show False by (simp add: is_digit_def)
  qed
  show ?thesis
  proof (cases "a < 0"; cases "b < 0")
    assume "a < 0" "b < 0"
    with eq have "nat (- a) = nat (- b)" by (simp add: itoa_def digits_inj)
    with \<open>a < 0\<close> \<open>b < 0\<close> show ?thesis by simp
  next
    assume "a < 0" "\<not> b < 0"
    with eq sign show ?thesis by blast
  next
    assume "\<not> a < 0" "b < 0"
    with eq sign [of b a] show ?thesis by simp
  next
    assume "\<not> a < 0" "\<not> b < 0"
    with eq have "nat a = nat b" by (simp add: itoa_def digits_inj)
    with \<open>\<not> a < 0\<close> \<open>\<not> b < 0\<close> show ?thesis by simp
  qed
qed

lemma Sprintf_dollar_d: "Sprintf ''$%d'' [IntArg k] = CHR ''$'' # itoa k"
  by simp

lemma Sprintf_s_dot_s: "Sprintf ''%s.%s'' [StrArg a, StrArg b] = a @ ''.'' @ b"
  by simp

lemma sint_succ:
  fixes i :: go_int
  assumes "sint i < 2 ^ 63 - 1"
  shows "sint (i + 1) = sint i + 1"
proof -
  have lo: "- (2 ^ 63) \<le> sint i" using sint_ge [of i] by simp
  have "sint (i + 1) = signed_take_bit 63 (sint i + 1)"
    by (simp add: sint_word_ariths)
  also have "\<dots> = sint i + 1"
    using lo assms by (intro signed_take_bit_int_eq_self) simp_all
  finally show ?thesis .
qed

lemma Bind_duckdb: "Bind duckdbDialect f i = CHR ''$'' # itoa (sint (i + 1))"
  by (simp add: duckdbDialect_def)

section \<open>Helper facts about the operations\<close>

lemma map_assign_nil_panics: "map_assign None k v = Inl NilMapAssign"
  by (simp add: map_assign_def)

lemma PutCommand_result:
  "TableDataSet_PutCommand t k s =
     Inr (t\<lparr>Statements :=
       Some ((case Statements t of None \<Rightarrow> Map.empty | Some m \<Rightarrow> m)(selectkey \<mapsto> s))\<rparr>)"
  by (simp add: TableDataSet_PutCommand_def map_assign_def Let_def split: option.splits)

lemmas setter_defs =
  FluentInsert_Tx_def FluentInsert_Batch_def FluentInsert_BatchSize_def
  FluentInsert_Records_def FluentInsert_PanicOnErr_def

lemma invoke_live:
  "h i = Some b \<Longrightarrow> \<exists>b'. invoke c i h = Inr (i, h(i \<mapsto> b'))"
  by (cases c) (auto simp: setter_defs)

lemma invoke_nil: "h i = None \<Longrightarrow> invoke c i h = Inl NilDereference"
  by (cases c) (simp_all add: setter_defs)

lemma invoke_keeps_batchSize:
  "h i = Some b \<Longrightarrow> field_written c \<noteq> ''batchSize'' \<Longrightarrow>
     \<exists>b'. invoke c i h = Inr (i, h(i \<mapsto> b')) \<and> batchSize b' = batchSize b"
  by (cases c) (auto simp: setter_defs)

lemma invoke_commute:
  assumes "field_written c1 \<noteq> field_written c2"
  shows "and_then (invoke c1 i h) c2 = and_then (invoke c2 i h) c1"
proof (cases "h i")
  case None
  then show ?thesis
    by (simp add: and_then_def invoke_nil)
next
  case (Some b)
  with assms show ?thesis
    by (cases b; cases c1; cases c2) (simp_all add: and_then_def setter_defs)
qed




section \<open>The statement cache and the table data set\<close>

text \<open>
  C1. The claim: after \<^verbatim>\<open>d.PutCommand(k, s)\<close> a lookup of \<open>k\<close> in the cache of \<open>d\<close>
  returns \<open>s\<close>, in particular under the insert key. The code at a concrete data set:
  the data set of the README with a statement under \<^verbatim>\<open>"select"\<close>, and the call
  \<^verbatim>\<open>PutCommand("insert", ...)\<close>. The call returns, a lookup of \<^verbatim>\<open>"insert"\<close> afterwards
  finds nothing (\<^verbatim>\<open>Get\<close> gives the error, \<^verbatim>\<open>GetOrPanic\<close> panics), and the statement
  that was cached under \<^verbatim>\<open>"select"\<close> has been replaced by the insert statement.
\<close>

theorem PutCommand_insert_key_not_retrievable:
  "\<exists>t'. TableDataSet_PutCommand
           \<lparr>Name = ''fishing_spots'', Schema = '''',
            Statements = Some [''select'' \<mapsto> ''select * from fishing_spots''],
            TableFields = ()\<rparr>
           ''insert'' ''insert into fishing_spots (id,location) values ($1,$2)'' = Inr t'
     \<and> fst (Statements_Get (Statements t') ''insert'')
           = ('''', Some (Error ''Invalid statement''))
     \<and> fst (Statements_GetOrPanic (Statements t') ''insert'')
           = Inl (PanicError (Error ''Invalid statement''))
     \<and> fst (Statements_Get (Statements t') ''select'')
           = (''insert into fishing_spots (id,location) values ($1,$2)'', None)"
  by (simp add: PutCommand_result Statements_Get_def Statements_GetOrPanic_def
      map_index_def selectkey_def)

text \<open>
  C2. For every cache \<open>s\<close> and key \<open>k\<close>: \<^verbatim>\<open>Get\<close> returns an error exactly when \<open>k\<close>
  is absent from \<open>s\<close>, \<^verbatim>\<open>GetOrPanic\<close> panics exactly when \<open>k\<close> is absent; when \<open>k\<close> is
  present with the text \<open>v\<close>, \<^verbatim>\<open>Get\<close> returns \<open>v\<close> with no error and \<^verbatim>\<open>GetOrPanic\<close>
  returns the same \<open>v\<close>; and both lookups leave the cache as it was.
\<close>

theorem Statements_lookup:
  "((\<exists>e. snd (fst (Statements_Get s k)) = Some e) \<longleftrightarrow> k \<notin> statement_keys s)
   \<and> ((\<exists>p. fst (Statements_GetOrPanic s k) = Inl p) \<longleftrightarrow> k \<notin> statement_keys s)
   \<and> (\<forall>v. map_index s k = Some v \<longrightarrow>
         fst (Statements_Get s k) = (v, None) \<and> fst (Statements_GetOrPanic s k) = Inr v)
   \<and> snd (Statements_Get s k) = s
   \<and> snd (Statements_GetOrPanic s k) = s"
  by (auto simp: Statements_Get_def Statements_GetOrPanic_def map_index_def statement_keys_def
      split: option.splits)

theorem Statements_lookup_witness:
  "fst (Statements_Get (Some [''get-fishing-spots'' \<mapsto> ''select * from fishing_spots''])
      ''get-fishing-spots'') = (''select * from fishing_spots'', None)
   \<and> fst (Statements_GetOrPanic (Some [''get-fishing-spots'' \<mapsto> ''select * from fishing_spots''])
      ''get-fishing-spots'') = Inr ''select * from fishing_spots''
   \<and> (\<exists>e. snd (fst (Statements_Get
        (Some [''get-fishing-spots'' \<mapsto> ''select * from fishing_spots'']) ''insert'')) = Some e)
   \<and> (\<exists>p. fst (Statements_GetOrPanic
        (Some [''get-fishing-spots'' \<mapsto> ''select * from fishing_spots'']) ''insert'') = Inl p)"
  using Statements_lookup
      [of "Some [''get-fishing-spots'' \<mapsto> ''select * from fishing_spots'']"
        "''get-fishing-spots''"]
    Statements_lookup
      [of "Some [''get-fishing-spots'' \<mapsto> ''select * from fishing_spots'']" "''insert''"]
  by (simp add: map_index_def statement_keys_def)

text \<open>
  C3. For every table data set \<open>t\<close>, \<^verbatim>\<open>t.Entity()\<close> is the schema, a dot and the
  table name when the schema is a non-empty string, and exactly the table name when the
  schema is the empty string.
\<close>

theorem Entity_qualified_name:
  "(Schema t \<noteq> '''' \<longrightarrow> TableDataSet_Entity t = Schema t @ ''.'' @ Name t)
   \<and> (Schema t = '''' \<longrightarrow> TableDataSet_Entity t = Name t)"
  by (simp add: TableDataSet_Entity_def)

theorem Entity_qualified_name_witness:
  "TableDataSet_Entity
     \<lparr>Name = ''fishing_spots'', Schema = ''public'', Statements = None, TableFields = ()\<rparr>
     = ''public.fishing_spots''
   \<and> TableDataSet_Entity
     \<lparr>Name = ''fishing_spots'', Schema = '''', Statements = None, TableFields = ()\<rparr>
     = ''fishing_spots''"
  using Entity_qualified_name
      [of "\<lparr>Name = ''fishing_spots'', Schema = ''public'', Statements = None,
            TableFields = ()\<rparr>"]
    Entity_qualified_name
      [of "\<lparr>Name = ''fishing_spots'', Schema = '''', Statements = None, TableFields = ()\<rparr>"]
  by simp

text \<open>
  C8. \<^verbatim>\<open>PutCommand\<close> never fails: for every table data set \<open>t\<close>, also one whose cache
  is the nil map, every key and every statement, the call returns (it does not panic).
  It allocates the map before it writes; a write to the nil map would panic
  (\<open>map_assign_nil_panics\<close>).
\<close>

theorem PutCommand_never_panics:
  "\<exists>t'. TableDataSet_PutCommand t k s = Inr t'"
  by (simp add: PutCommand_result)

text \<open>
  C9. For every table data set \<open>t\<close>, key \<open>k\<close> and statement \<open>s\<close>, \<^verbatim>\<open>t.PutCommand(k, s)\<close>
  changes the cache at the key \<^verbatim>\<open>"select"\<close> only: every other key reads as before, and
  the fields \<^verbatim>\<open>Name\<close>, \<^verbatim>\<open>Schema\<close> and \<^verbatim>\<open>TableFields\<close> are unchanged.
\<close>

theorem PutCommand_frame:
  "\<exists>t'. TableDataSet_PutCommand t k s = Inr t'
     \<and> Name t' = Name t \<and> Schema t' = Schema t \<and> TableFields t' = TableFields t
     \<and> (\<forall>k'. k' \<noteq> selectkey \<longrightarrow>
           map_index (Statements t') k' = map_index (Statements t) k')"
  by (auto simp: PutCommand_result map_index_def split: option.splits)

theorem PutCommand_frame_witness:
  "\<exists>t'. TableDataSet_PutCommand
           \<lparr>Name = ''fishing_spots'', Schema = ''public'',
            Statements = Some [''get-fishing-spots'' \<mapsto> ''select * from fishing_spots''],
            TableFields = (7 :: nat)\<rparr>
           ''insert'' ''insert into fishing_spots (location) values ($1)'' = Inr t'
     \<and> Name t' = ''fishing_spots'' \<and> Schema t' = ''public'' \<and> TableFields t' = 7
     \<and> map_index (Statements t') ''get-fishing-spots'' = Some ''select * from fishing_spots''
     \<and> map_index (Statements t') ''insert'' = None"
proof -
  let ?t = "\<lparr>Name = ''fishing_spots'', Schema = ''public'',
            Statements = Some [''get-fishing-spots'' \<mapsto> ''select * from fishing_spots''],
            TableFields = (7 :: nat)\<rparr>"
  from PutCommand_frame [of ?t "''insert''" "''insert into fishing_spots (location) values ($1)''"]
  obtain t' where put:
      "TableDataSet_PutCommand ?t ''insert''
         ''insert into fishing_spots (location) values ($1)'' = Inr t'"
    and fields: "Name t' = Name ?t" "Schema t' = Schema ?t" "TableFields t' = TableFields ?t"
    and frame: "\<forall>k'. k' \<noteq> selectkey \<longrightarrow>
           map_index (Statements t') k' = map_index (Statements ?t) k'"
    by blast
  have "''get-fishing-spots'' \<noteq> selectkey" "''insert'' \<noteq> selectkey"
    by (simp_all add: selectkey_def)
  with frame have "map_index (Statements t') ''get-fishing-spots''
        = map_index (Statements ?t) ''get-fishing-spots''"
      "map_index (Statements t') ''insert'' = map_index (Statements ?t) ''insert''"
    by blast+
  with put fields show ?thesis
    by (simp add: map_index_def)
qed

section \<open>The DuckDB dialect\<close>

text \<open>
  C4, as stated: for every non-negative index \<open>i\<close>, \<^verbatim>\<open>Bind\<close> returns \<^verbatim>\<open>"$"\<close> followed
  by the decimal numeral of \<open>i + 1\<close>. At the largest \<^verbatim>\<open>int\<close>, a non-negative index,
  \<open>i + 1\<close> wraps around to the smallest \<^verbatim>\<open>int\<close> and the placeholder carries a minus
  sign: it is not \<^verbatim>\<open>"$"\<close> followed by the numeral of \<open>i + 1\<close>.
\<close>

theorem Bind_largest_index_counterexample:
  "sint (0x7FFFFFFFFFFFFFFF :: go_int) = 9223372036854775807
   \<and> Bind duckdbDialect ''id'' 0x7FFFFFFFFFFFFFFF = ''$-9223372036854775808''
   \<and> CHR ''$'' # itoa (sint (0x7FFFFFFFFFFFFFFF :: go_int) + 1) = ''$9223372036854775808''"
  by (simp add: Bind_duckdb itoa_def digits.simps digit_char_def)

text \<open>
  C4, amended. For every field string and every index \<open>i\<close> with \<open>0 \<le> i\<close> below the
  largest \<^verbatim>\<open>int\<close>, \<^verbatim>\<open>Bind\<close> returns \<^verbatim>\<open>"$"\<close> followed by the decimal numeral of
  \<open>i + 1\<close>: a non-empty string of decimal digits without a leading zero whose value is
  \<open>i + 1\<close>. For all indices \<open>i \<noteq> j\<close>, whatever the field strings, the placeholders are
  distinct strings. (\<^verbatim>\<open>Bind\<close> is a function of its two arguments, so it is
  deterministic.)
\<close>

theorem Bind_placeholder:
  fixes i j :: go_int
  shows "(0 \<le> sint i \<and> sint i < 2 ^ 63 - 1 \<longrightarrow>
            (\<exists>num. Bind duckdbDialect f i = CHR ''$'' # num
               \<and> num \<noteq> [] \<and> (\<forall>c\<in>set num. is_digit c) \<and> hd num \<noteq> CHR ''0''
               \<and> int (decimal_value num) = sint i + 1))
         \<and> (i \<noteq> j \<longrightarrow> Bind duckdbDialect f i \<noteq> Bind duckdbDialect g j)"
proof (intro conjI impI)
  assume range: "0 \<le> sint i \<and> sint i < 2 ^ 63 - 1"
  then have next_index: "sint (i + 1) = sint i + 1"
    by (simp add: sint_succ)
  let ?num = "digits (nat (sint i + 1))"
  from range next_index have "Bind duckdbDialect f i = CHR ''$'' # ?num"
    by (simp add: Bind_duckdb itoa_def)
  moreover have "?num \<noteq> []"
    by (rule digits_not_Nil)
  moreover have "\<forall>c\<in>set ?num. is_digit c"
    by (simp add: digits_all_digit)
  moreover from range have "hd ?num \<noteq> CHR ''0''"
    by (intro digits_no_leading_zero) simp
  moreover from range have "int (decimal_value ?num) = sint i + 1"
    by (simp add: decimal_value_digits)
  ultimately show "\<exists>num. Bind duckdbDialect f i = CHR ''$'' # num
      \<and> num \<noteq> [] \<and> (\<forall>c\<in>set num. is_digit c) \<and> hd num \<noteq> CHR ''0''
      \<and> int (decimal_value num) = sint i + 1"
    by blast
next
  assume "i \<noteq> j"
  show "Bind duckdbDialect f i \<noteq> Bind duckdbDialect g j"
  proof
    assume "Bind duckdbDialect f i = Bind duckdbDialect g j"
    then have "itoa (sint (i + 1)) = itoa (sint (j + 1))"
      by (simp add: Bind_duckdb)
    then have "sint (i + 1) = sint (j + 1)"
      by (rule itoa_inj)
    then have "i + 1 = j + 1"
      by (rule signed_word_eqI)
    with \<open>i \<noteq> j\<close> show False
      by simp
  qed
qed

theorem Bind_placeholder_witness:
  "(\<exists>num. Bind duckdbDialect ''location'' 0 = CHR ''$'' # num
      \<and> num \<noteq> [] \<and> (\<forall>c\<in>set num. is_digit c) \<and> hd num \<noteq> CHR ''0''
      \<and> int (decimal_value num) = 1)
   \<and> Bind duckdbDialect ''location'' 0 \<noteq> Bind duckdbDialect ''id'' 1
   \<and> Bind duckdbDialect ''location'' 0 = ''$1''
   \<and> Bind duckdbDialect ''id'' 1 = ''$2''"
  using Bind_placeholder [of 0 "''location''" 1 "''id''"]
  by (simp add: Bind_duckdb itoa_def digits.simps digit_char_def)

text \<open>
  C5. \<^verbatim>\<open>Bind\<close> of the DuckDB dialect depends on the index alone: for every index \<open>i\<close>
  and any two field strings the placeholders are equal.
\<close>

theorem Bind_ignores_field:
  "Bind duckdbDialect f1 i = Bind duckdbDialect f2 i"
  by (simp add: duckdbDialect_def)

section \<open>The insert builder\<close>

text \<open>
  C7. Every configuration call (\<^verbatim>\<open>Tx\<close>, \<^verbatim>\<open>Batch\<close>, \<^verbatim>\<open>BatchSize\<close>, \<^verbatim>\<open>Records\<close>,
  \<^verbatim>\<open>PanicOnErr\<close>) on a builder returns the pointer it was invoked on and changes the
  object store at that builder only; and two calls that write distinct fields commute:
  chained in either order they end with the same pointer and the same store, so the
  same builder state.
\<close>

theorem config_calls_return_receiver_and_commute:
  "(h i = Some b \<longrightarrow> (\<exists>b'. invoke c i h = Inr (i, h(i \<mapsto> b'))))
   \<and> (field_written c1 \<noteq> field_written c2 \<longrightarrow>
        and_then (invoke c1 i h) c2 = and_then (invoke c2 i h) c1)"
  by (simp add: invoke_live invoke_commute)

theorem config_calls_witness:
  "and_then (invoke (CallBatch True) 0
       [0 \<mapsto> \<lparr>store = None, ds = ''fishing_spots'', batch = False, batchSize = 0,
              tx = None :: string option, records = [1, 2, 3 :: nat], panicOnErr = False\<rparr>
        :: (string, string, nat list, unit) FluentInsert])
     (CallBatchSize 50)
   = Inr (0, [0 \<mapsto> \<lparr>store = None, ds = ''fishing_spots'', batch = True, batchSize = 50,
              tx = None, records = [1, 2, 3], panicOnErr = False\<rparr>])
   \<and> and_then (invoke (CallBatchSize 50) 0
       [0 \<mapsto> \<lparr>store = None, ds = ''fishing_spots'', batch = False, batchSize = 0,
              tx = None :: string option, records = [1, 2, 3 :: nat], panicOnErr = False\<rparr>
        :: (string, string, nat list, unit) FluentInsert])
     (CallBatch True)
   = Inr (0, [0 \<mapsto> \<lparr>store = None, ds = ''fishing_spots'', batch = True, batchSize = 50,
              tx = None, records = [1, 2, 3], panicOnErr = False\<rparr>])"
  using config_calls_return_receiver_and_commute
    [of "[0 \<mapsto> \<lparr>store = None, ds = ''fishing_spots'', batch = False, batchSize = 0,
              tx = None :: string option, records = [1, 2, 3 :: nat], panicOnErr = False\<rparr>
        :: (string, string, nat list, unit) FluentInsert]" 0
      "\<lparr>store = None, ds = ''fishing_spots'', batch = False, batchSize = 0,
              tx = None :: string option, records = [1, 2, 3 :: nat], panicOnErr = False\<rparr>"
      "CallBatch True" "CallBatch True" "CallBatchSize 50"]
  by (simp add: and_then_def setter_defs)

text \<open>
  C10. For every builder \<open>i\<close> with a store, \<^verbatim>\<open>i.Execute()\<close> returns exactly what the
  store's \<^verbatim>\<open>InsertRecs\<close> returns for the builder's transaction handle and an
  \<^verbatim>\<open>InsertInput\<close> that carries the builder's data set, records, batch flag, batch size
  and panic-on-error flag; the builder, and the object store, are left as they were.
\<close>

theorem Execute_forwards_to_InsertRecs:
  "h i = Some b \<Longrightarrow> store b = Some st \<Longrightarrow>
     FluentInsert_Execute i h =
       Inr (InsertRecs st (tx b)
              \<lparr>Dataset = ds b, Records = records b, Batch = batch b,
               BatchSize = batchSize b, PanicOnErr = panicOnErr b\<rparr>, h)"
  by (simp add: FluentInsert_Execute_def)

theorem Execute_forwards_witness:
  "FluentInsert_Execute 0
     [0 \<mapsto> \<lparr>store = Some \<lparr>InsertRecs = (\<lambda>t ii. (t, ii))\<rparr>, ds = ''fishing_spots'',
            batch = True, batchSize = 50, tx = Some ''tx1'', records = [1, 2, 3 :: nat],
            panicOnErr = True\<rparr>]
   = Inr ((Some ''tx1'',
           \<lparr>Dataset = ''fishing_spots'', Records = [1, 2, 3], Batch = True, BatchSize = 50,
            PanicOnErr = True\<rparr>),
          [0 \<mapsto> \<lparr>store = Some \<lparr>InsertRecs = (\<lambda>t ii. (t, ii))\<rparr>, ds = ''fishing_spots'',
            batch = True, batchSize = 50, tx = Some ''tx1'', records = [1, 2, 3 :: nat],
            panicOnErr = True\<rparr>])"
  using Execute_forwards_to_InsertRecs
    [of "[0 \<mapsto> \<lparr>store = Some \<lparr>InsertRecs = (\<lambda>t ii. (t, ii))\<rparr>, ds = ''fishing_spots'',
            batch = True, batchSize = 50, tx = Some ''tx1'', records = [1, 2, 3 :: nat],
            panicOnErr = True\<rparr>]" 0
      "\<lparr>store = Some \<lparr>InsertRecs = (\<lambda>t ii. (t, ii))\<rparr>, ds = ''fishing_spots'',
            batch = True, batchSize = 50, tx = Some ''tx1'', records = [1, 2, 3 :: nat],
            panicOnErr = True\<rparr>"
      "\<lparr>InsertRecs = (\<lambda>t ii. (t, ii))\<rparr>"]
  by simp




lemma batch_example:
  "FluentInsert_Execute 0
       [0 \<mapsto> \<lparr>store = Some batching_store, ds = ''fishing_spots'', batch = True,
              batchSize = 2, tx = None :: string option, records = [1, 2, 3 :: nat],
              panicOnErr = False\<rparr>]
     = Inr (Some [[1, 2], [3]],
       [0 \<mapsto> \<lparr>store = Some batching_store, ds = ''fishing_spots'', batch = True,
              batchSize = 2, tx = None :: string option, records = [1, 2, 3 :: nat],
              panicOnErr = False\<rparr>])"
  by (simp add: FluentInsert_Execute_def batching_store_def InsertRecs_batches_def
      batch_size_def chunks.simps)

end
